theory Spec2Isabelle
  imports Complex_Main
begin

section \<open>JavaScript strings\<close>

text \<open>
  A JavaScript string is a sequence of UTF-16 code units. The regular expressions of the
  program carry no \<open>u\<close> flag, so they inspect one code unit at a time; a code unit is
  modelled by its number. String literals of the source that are plain ASCII are written
  with \<open>js\<close>.
\<close>

type_synonym jsstring = "nat list"

definition js :: "string \<Rightarrow> jsstring" where
  "js = map of_char"

text \<open>
  The characters matched by \<open>\s\<close> in a regular expression, which are also the
  characters removed by \<open>String.prototype.trim\<close>: the WhiteSpace and LineTerminator
  productions of ECMAScript.
\<close>

definition is_whitespace :: "nat \<Rightarrow> bool" where
  "is_whitespace c \<longleftrightarrow>
     c = 0x09 \<or> c = 0x0A \<or> c = 0x0B \<or> c = 0x0C \<or> c = 0x0D \<or> c = 0x20 \<or> c = 0xA0 \<or>
     c = 0x1680 \<or> (0x2000 \<le> c \<and> c \<le> 0x200A) \<or> c = 0x2028 \<or> c = 0x2029 \<or>
     c = 0x202F \<or> c = 0x205F \<or> c = 0x3000 \<or> c = 0xFEFF"

definition trim :: "jsstring \<Rightarrow> jsstring" where
  "trim s = rev (dropWhile is_whitespace (rev (dropWhile is_whitespace s)))"

text \<open>\<open>parts.join(" ")\<close>\<close>

fun join_space :: "jsstring list \<Rightarrow> jsstring" where
  "join_space [] = []"
| "join_space [p] = p"
| "join_space (p # q # ps) = p @ [0x20] @ join_space (q # ps)"

section \<open>Payload validator\<close>

text \<open>
  The character class of the first check. The source writes it with the letters
  themselves, as two ranges (small a to small ya, capital A to capital YA) and the two
  letters yo; in code units these are U+0430..U+044F, U+0410..U+042F, U+0451 and U+0401.
\<close>

definition is_cyrillic :: "nat \<Rightarrow> bool" where
  "is_cyrillic c \<longleftrightarrow>
     (0x430 \<le> c \<and> c \<le> 0x44F) \<or> (0x410 \<le> c \<and> c \<le> 0x42F) \<or> c = 0x451 \<or> c = 0x401"

text \<open>
  The words of the specification, "the Cyrillic alphabet range", name no code points.
  Two readings to compare the class of the source with: the Cyrillic block of Unicode,
  U+0400..U+04FF, and the one contiguous run of letters from capital A to small ya,
  U+0410..U+044F.
\<close>

definition spec_cyrillic_block :: "nat \<Rightarrow> bool" where
  "spec_cyrillic_block c \<longleftrightarrow> 0x400 \<le> c \<and> c \<le> 0x4FF"

definition spec_cyrillic_run :: "nat \<Rightarrow> bool" where
  "spec_cyrillic_run c \<longleftrightarrow> 0x410 \<le> c \<and> c \<le> 0x44F"

text \<open>The test of the first regular expression: some code unit is in the class.\<close>

definition test_cyrillic :: "jsstring \<Rightarrow> bool" where
  "test_cyrillic payload = list_ex is_cyrillic payload"

text \<open>\<open>(payload.match(/"/g) || []).length\<close>: the number of code units U+0022.\<close>

definition quoteCount :: "jsstring \<Rightarrow> nat" where
  "quoteCount payload = length (filter (\<lambda>c. c = 0x22) payload)"

text \<open>
  The third regular expression is \<open>(ext|site|inurl|intitle):\s+\<close>. It is not anchored:
  \<open>test\<close> succeeds when the pattern matches at some position of the payload. At one
  position it matches when one of the four alternatives is there, then a colon, then
  at least one whitespace character.
\<close>

definition spacing_operators :: "jsstring list" where
  "spacing_operators = [js ''ext'', js ''site'', js ''inurl'', js ''intitle'']"

fun strip_prefix :: "jsstring \<Rightarrow> jsstring \<Rightarrow> jsstring option" where
  "strip_prefix [] s = Some s"
| "strip_prefix (p # ps) [] = None"
| "strip_prefix (p # ps) (c # cs) = (if p = c then strip_prefix ps cs else None)"

definition spacing_match_at :: "jsstring \<Rightarrow> bool" where
  "spacing_match_at s =
     list_ex (\<lambda>op. case strip_prefix (op @ [0x3A]) s of
                      Some (c # rest) \<Rightarrow> is_whitespace c
                    | _ \<Rightarrow> False) spacing_operators"

fun test_spacing :: "jsstring \<Rightarrow> bool" where
  "test_spacing [] = False"
| "test_spacing (c # cs) = (spacing_match_at (c # cs) \<or> test_spacing cs)"

definition msg_cyrillic :: jsstring where
  "msg_cyrillic =
     js ''CRITICAL: Cyrillic characters detected in Dork. Google Operators must be ASCII.''"

definition msg_quotes :: jsstring where
  "msg_quotes =
     js ''SYNTAX ERROR: Unbalanced quotes detected. Ensure all strings are closed.''"

definition msg_spacing :: jsstring where
  "msg_spacing =
     js ''SYNTAX WARNING: Space detected after operator colon (e.g. 'ext: pdf'). Remove space.''"

definition validatePayload :: "jsstring \<Rightarrow> jsstring list" where
  "validatePayload payload =
     (let issues0 = [];
          issues1 = (if test_cyrillic payload then issues0 @ [msg_cyrillic] else issues0);
          issues2 = (if quoteCount payload mod 2 \<noteq> 0 then issues1 @ [msg_quotes] else issues1);
          issues3 = (if test_spacing payload then issues2 @ [msg_spacing] else issues2)
      in issues3)"

section \<open>Values of the AI boundary\<close>

text \<open>
  A value as \<open>JSON.parse\<close> returns it. The interface \<open>DorkResponse\<close> of the source
  exists at compile time only: at run time the parsed value is stored as it is, whatever
  its shape. The properties of an object are kept in insertion order; their keys are
  distinct. A number stands for the value of its double.
\<close>

datatype json =
    JNull
  | JBool bool
  | JNumber real
  | JString jsstring
  | JArray "json list"
  | JObject "(jsstring \<times> json) list"

text \<open>JavaScript truthiness, for \<open>!analysis\<close> and \<open>analysis.refinedObjective\<close>.\<close>

fun truthy :: "json \<Rightarrow> bool" where
  "truthy JNull = False"
| "truthy (JBool b) = b"
| "truthy (JNumber r) = (r \<noteq> 0)"
| "truthy (JString s) = (s \<noteq> [])"
| "truthy (JArray xs) = True"
| "truthy (JObject kvs) = True"

text \<open>
  \<open>v.k\<close> for a value \<open>v\<close> other than \<open>null\<close> and a key \<open>k\<close> that no prototype
  defines (\<open>dork\<close>, \<open>refinedObjective\<close> and the other field names); \<open>None\<close> is
  \<open>undefined\<close>. Reading a property of \<open>null\<close> throws; the callers treat that case.
\<close>

fun property :: "json \<Rightarrow> jsstring \<Rightarrow> json option" where
  "property (JObject kvs) k = map_of kvs k"
| "property v k = None"

text \<open>The \<open>required\<close> list of the response schema sent to the AI boundary.\<close>

definition required_fields :: "jsstring list" where
  "required_fields =
     [js ''dork'', js ''explanation'', js ''riskLevel'', js ''suggestedOperators'',
      js ''validationAnalysis'', js ''improvementReasoning'', js ''refinedObjective'']"

definition omits_required :: "json \<Rightarrow> bool" where
  "omits_required data = list_ex (\<lambda>k. property data k = None) required_fields"

text \<open>
  What one call of \<open>ai.models.generateContent\<close>, followed by \<open>JSON.parse\<close> of the
  text it returns, can come to. \<open>JSON.parse\<close> is a built-in of the platform; its outcome
  on the response text is part of the answer of the boundary.
  \<^item> \<open>Rejected t\<close>: the call throws the value \<open>t\<close>.
  \<^item> \<open>NoText\<close>: the call returns and \<open>result.text\<close> is \<open>undefined\<close> or empty.
  \<^item> \<open>Malformed m\<close>: \<open>result.text\<close> is not empty and \<open>JSON.parse\<close> throws a
    SyntaxError with message \<open>m\<close>.
  \<^item> \<open>Parsed data\<close>: \<open>result.text\<close> is not empty and \<open>JSON.parse\<close> returns \<open>data\<close>.
\<close>

text \<open>
  A thrown value, as far as the \<open>catch\<close> block looks at it. \<open>Nullish\<close> is
  \<open>undefined\<close> or \<open>null\<close>, on which the read of \<open>err.message\<close> throws in its
  turn. \<open>Err m\<close> is any other value, with \<open>m\<close> its \<open>message\<close>, empty when the
  value has none or a falsy one. The errors that the engine and \<open>JSON.parse\<close> throw
  are of the second kind.
\<close>

datatype thrown = Nullish | Err jsstring

datatype ai_response =
    Rejected thrown
  | NoText
  | Malformed jsstring
  | Parsed json

text \<open>
  The surroundings of one invocation: the credential that the build substitutes for
  \<open>process.env.API_KEY\<close> (the build configuration substitutes the empty string when
  none is configured), the value of \<open>Date.now()\<close>, and the message text that the
  JavaScript engine gives to the TypeError it throws on a parsed value (a read of
  \<open>dork\<close> on \<open>null\<close>, or \<open>payload.match\<close> on a \<open>dork\<close> that is not a string).
\<close>

record env =
  API_KEY :: jsstring
  Date_now :: nat
  TypeError_message :: "json \<Rightarrow> jsstring"

section \<open>Session state\<close>

record manual =
  site :: jsstring
  inurl :: jsstring
  intitle :: jsstring
  filetype :: jsstring
  textquery :: jsstring

record HistoryItem =
  timestamp :: nat
  input :: jsstring
  response :: json

text \<open>The state variables of the component \<open>App\<close>; \<open>analysis\<close> is \<open>JNull\<close> for \<open>null\<close>.\<close>

record session =
  naturalInput :: jsstring
  dork :: jsstring
  analysis :: json
  history :: "HistoryItem list"
  isLoading :: bool
  isOptimizing :: bool
  error :: "jsstring option"
  syntaxErrors :: "jsstring list"
  showManual :: bool
  copyFeedback :: bool
  manualParams :: manual

definition empty_manual :: manual where
  "empty_manual = \<lparr>site = [], inurl = [], intitle = [], filetype = [], textquery = []\<rparr>"

definition initial_session :: session where
  "initial_session =
     \<lparr>naturalInput = [], dork = [], analysis = JNull, history = [], isLoading = False,
      isOptimizing = False, error = None, syntaxErrors = [], showManual = False,
      copyFeedback = False, manualParams = empty_manual\<rparr>"

text \<open>
  The session after the component is mounted. The effect that checks the credential runs
  once; the effect that composes the manual query runs too and finds no part.
\<close>

definition msg_system_alert :: jsstring where
  "msg_system_alert =
     js ''SYSTEM ALERT: API_KEY is missing. Configure Vercel Environment Variables.''"

definition mount :: "env \<Rightarrow> session" where
  "mount e =
     (if API_KEY e = [] then initial_session\<lparr>error := Some msg_system_alert\<rparr>
      else initial_session)"

section \<open>Manual mode\<close>

text \<open>The parts that the effect on \<open>[manualParams, analysis]\<close> pushes, in its order.\<close>

definition manual_parts :: "manual \<Rightarrow> jsstring list" where
  "manual_parts m =
     (if site m \<noteq> [] then [js ''site:'' @ site m] else []) @
     (if inurl m \<noteq> [] then [js ''inurl:'' @ inurl m] else []) @
     (if intitle m \<noteq> [] then [js ''intitle:'' @ [0x22] @ intitle m @ [0x22]] else []) @
     (if filetype m \<noteq> [] then [js ''filetype:'' @ filetype m] else []) @
     (if textquery m \<noteq> [] then [[0x22] @ textquery m @ [0x22]] else [])"

text \<open>
  The effect itself. React runs it after a render in which \<open>manualParams\<close> or
  \<open>analysis\<close> changed; the handlers below call it where that is the case.
\<close>

definition sync_manual :: "session \<Rightarrow> session" where
  "sync_manual st =
     (if \<not> truthy (analysis st) then
        (let parts = manual_parts (manualParams st)
         in if length parts > 0 then st\<lparr>dork := join_space parts\<rparr> else st)
      else st)"

text \<open>
  The field that a change event names. The state object has five fields; the form renders
  an input for each of them but \<open>intitle\<close>.
\<close>

datatype field = Site | Inurl | Intitle | Filetype | Textquery

fun set_field :: "field \<Rightarrow> jsstring \<Rightarrow> manual \<Rightarrow> manual" where
  "set_field Site v m = m\<lparr>site := v\<rparr>"
| "set_field Inurl v m = m\<lparr>inurl := v\<rparr>"
| "set_field Intitle v m = m\<lparr>intitle := v\<rparr>"
| "set_field Filetype v m = m\<lparr>filetype := v\<rparr>"
| "set_field Textquery v m = m\<lparr>textquery := v\<rparr>"

text \<open>
  \<open>handleManualChange\<close> stores a fresh \<open>manualParams\<close> object, so the effect runs after
  it.
\<close>

definition handleManualChange :: "field \<Rightarrow> jsstring \<Rightarrow> session \<Rightarrow> session" where
  "handleManualChange name v st =
     sync_manual (st\<lparr>analysis := JNull, manualParams := set_field name v (manualParams st)\<rparr>)"

section \<open>History ledger\<close>

text \<open>The updater given to \<open>setHistory\<close>: \<open>prev => [item, ...prev].slice(0, 10)\<close>.\<close>

definition recordHistory :: "HistoryItem \<Rightarrow> HistoryItem list \<Rightarrow> HistoryItem list" where
  "recordHistory item prev = take 10 (item # prev)"

text \<open>A sequence of record operations, the first of the list recorded first.\<close>

definition record_all :: "HistoryItem list \<Rightarrow> HistoryItem list \<Rightarrow> HistoryItem list" where
  "record_all items h = foldl (\<lambda>prev item. recordHistory item prev) h items"

section \<open>Generation controller\<close>

text \<open>\<open>overrideInput || naturalInput\<close>; no argument is \<open>None\<close>.\<close>

definition inputToUse :: "jsstring option \<Rightarrow> session \<Rightarrow> jsstring" where
  "inputToUse overrideInput st =
     (case overrideInput of
        None \<Rightarrow> naturalInput st
      | Some s \<Rightarrow> if s \<noteq> [] then s else naturalInput st)"

definition msg_aborted :: jsstring where
  "msg_aborted = js ''ABORTED: API Key not found.''"

text \<open>
  The \<open>catch\<close> block on a value that is not \<open>undefined\<close> or \<open>null\<close>; \<open>m\<close> is
  \<open>err.message\<close>, empty when there is none.
\<close>

definition uplink_error :: "jsstring \<Rightarrow> jsstring" where
  "uplink_error m =
     (let errorMsg = js ''UPLINK ERROR: Unable to generate strategy.''
      in if m \<noteq> [] then errorMsg @ js '' ['' @ m @ js '']'' else errorMsg)"

definition on_catch :: "jsstring \<Rightarrow> session \<Rightarrow> session" where
  "on_catch m st = st\<lparr>error := Some (uplink_error m)\<rparr>"

text \<open>
  The four state updates before the \<open>await\<close>. They are rendered before the boundary
  answers; the effect runs after that render when \<open>analysis\<close> changed, which is when it
  was not \<open>null\<close> before.
\<close>

definition enter_pending :: "session \<Rightarrow> session" where
  "enter_pending st =
     (let st' = st\<lparr>isLoading := True, error := None, syntaxErrors := [], analysis := JNull\<rparr>
      in if analysis st \<noteq> JNull then sync_manual st' else st')"

text \<open>
  How the \<open>try\<close> block ends: it throws a value, it skips the body of
  \<open>if (result.text)\<close>, or it runs the state updates of that body.
\<close>

datatype outcome = Threw thrown | Skipped | Stored session

text \<open>
  The body of \<open>if (result.text)\<close> for a parsed value \<open>data\<close>. \<open>data.dork\<close> throws a
  TypeError when \<open>data\<close> is \<open>null\<close>. \<open>validatePayload\<close> is typed for strings, and
  with another argument it throws a TypeError at \<open>payload.match\<close> (a read on
  \<open>undefined\<close> or \<open>null\<close>, a call of \<open>undefined\<close> otherwise), before any state
  update. The updates are applied to the state at the time of the answer; the history
  entry is built from the objective the cycle started with.
\<close>

definition on_parsed :: "env \<Rightarrow> jsstring \<Rightarrow> json \<Rightarrow> session \<Rightarrow> outcome" where
  "on_parsed e objective data st =
     (case data of
        JNull \<Rightarrow> Threw (Err (TypeError_message e data))
      | _ \<Rightarrow>
        (case property data (js ''dork'') of
           Some (JString q) \<Rightarrow>
             (let validationIssues = validatePayload q
              in Stored (st\<lparr>syntaxErrors := validationIssues,
                             dork := q,
                             analysis := data,
                             history := recordHistory
                               \<lparr>timestamp = Date_now e, input = objective, response = data\<rparr>
                               (history st),
                             manualParams := empty_manual\<rparr>))
         | _ \<Rightarrow> Threw (Err (TypeError_message e data))))"

definition try_block :: "env \<Rightarrow> jsstring \<Rightarrow> ai_response \<Rightarrow> session \<Rightarrow> outcome" where
  "try_block e objective resp st =
     (case resp of
        Rejected t \<Rightarrow> Threw t
      | NoText \<Rightarrow> Skipped
      | Malformed m \<Rightarrow> Threw (Err m)
      | Parsed data \<Rightarrow> on_parsed e objective data st)"

text \<open>
  Everything after the \<open>await\<close>: \<open>try\<close>, \<open>catch\<close> and \<open>finally\<close>. After the updates
  of a success \<open>analysis\<close> and \<open>manualParams\<close> are fresh objects, so the effect runs.
  When the thrown value is \<open>undefined\<close> or \<open>null\<close> the \<open>catch\<close> block throws at
  \<open>err.message\<close> before \<open>setError\<close>: only the \<open>finally\<close> block updates the state, and
  the promise of the function is rejected, which nothing observes.
\<close>

definition generate_complete :: "env \<Rightarrow> jsstring \<Rightarrow> ai_response \<Rightarrow> session \<Rightarrow> session" where
  "generate_complete e objective resp st =
     (case try_block e objective resp st of
        Threw Nullish \<Rightarrow> st\<lparr>isLoading := False\<rparr>
      | Threw (Err m) \<Rightarrow> (on_catch m st)\<lparr>isLoading := False\<rparr>
      | Skipped \<Rightarrow> st\<lparr>isLoading := False\<rparr>
      | Stored st' \<Rightarrow> sync_manual (st'\<lparr>isLoading := False\<rparr>))"

text \<open>
  One generation cycle that nothing interleaves with. The second component lists the
  calls of the AI boundary that were made, each by the objective put into its prompt;
  the rest of the request (prompt text, response schema, system instruction, model name)
  is the same in every call.
\<close>

definition generateWithAI ::
  "env \<Rightarrow> ai_response \<Rightarrow> jsstring option \<Rightarrow> session \<Rightarrow> session \<times> jsstring list" where
  "generateWithAI e resp overrideInput st =
     (let objective = inputToUse overrideInput st
      in if trim objective = [] then (st, [])
         else if API_KEY e = [] then (st\<lparr>error := Some msg_aborted\<rparr>, [])
         else (generate_complete e objective resp (enter_pending st), [objective]))"

section \<open>Refinement loop\<close>

text \<open>
  \<open>handleApplyImprovement\<close>. A truthy \<open>refinedObjective\<close> that is not a string is stored
  as the objective and then makes \<open>generateWithAI\<close> throw at \<open>inputToUse.trim\<close>,
  outside its \<open>try\<close>; that outcome is \<open>None\<close>.
\<close>

definition handleApplyImprovement ::
  "env \<Rightarrow> ai_response \<Rightarrow> session \<Rightarrow> (session \<times> jsstring list) option" where
  "handleApplyImprovement e resp st =
     (if \<not> truthy (analysis st) then Some (st, [])
      else
        (case property (analysis st) (js ''refinedObjective'') of
           None \<Rightarrow> Some (st, [])
         | Some v \<Rightarrow>
             if \<not> truthy v then Some (st, [])
             else
               (case v of
                  JString x \<Rightarrow> Some (generateWithAI e resp (Some x) (st\<lparr>naturalInput := x\<rparr>))
                | _ \<Rightarrow> None)))"

section \<open>Example values\<close>

text \<open>
  The scenario of the specification: the objective, a response that has every field of
  \<open>DorkResponse\<close> (its \<open>refinedObjective\<close> is the parameter), and surroundings with a
  credential and without one. The TypeError texts are those of the V8 engine.
\<close>

definition example_objective :: jsstring where
  "example_objective = js ''find exposed .env files on edu domains''"

definition example_response :: "jsstring \<Rightarrow> json" where
  "example_response refined =
     JObject
       [(js ''dork'', JString (js ''site:.edu filetype:env'')),
        (js ''explanation'', JString (js ''environment files left readable'')),
        (js ''riskLevel'', JString (js ''HIGH'')),
        (js ''suggestedOperators'',
           JArray [JString (js ''intitle:index.of''), JString (js ''inurl:config''),
                   JString (js ''-inurl:example'')]),
        (js ''validationAnalysis'', JString (js ''operators are well formed'')),
        (js ''improvementReasoning'', JString (js ''restrict the path'')),
        (js ''refinedObjective'', JString refined)]"

definition example_TypeError_message :: "json \<Rightarrow> jsstring" where
  "example_TypeError_message data =
     (case data of
        JNull \<Rightarrow> js ''Cannot read properties of null (reading 'dork')''
      | _ \<Rightarrow>
        (case property data (js ''dork'') of
           None \<Rightarrow> js ''Cannot read properties of undefined (reading 'match')''
         | Some JNull \<Rightarrow> js ''Cannot read properties of null (reading 'match')''
         | Some v \<Rightarrow> js ''payload.match is not a function''))"

definition example_env :: env where
  "example_env =
     \<lparr>API_KEY = js ''secret'', Date_now = 1700000000000,
      TypeError_message = example_TypeError_message\<rparr>"

definition example_env_no_key :: env where
  "example_env_no_key = example_env\<lparr>API_KEY := []\<rparr>"

text \<open>The session after a first successful cycle on the example objective.\<close>

definition example_session :: "jsstring \<Rightarrow> session" where
  "example_session refined =
     fst (generateWithAI example_env (Parsed (example_response refined)) None
            (initial_session\<lparr>naturalInput := example_objective\<rparr>))"

definition example_item :: "nat \<Rightarrow> HistoryItem" where
  "example_item n =
     \<lparr>timestamp = n, input = example_objective, response = example_response []\<rparr>"

section \<open>Properties of the validator\<close>

lemma strip_prefix_append: "strip_prefix p (p @ s) = Some s"
  by (induction p) auto

lemma spacing_match_at_intro:
  assumes "op \<in> set spacing_operators" "is_whitespace w"
  shows "spacing_match_at (op @ 0x3A # w # post)"
proof -
  have "strip_prefix (op @ [0x3A]) (op @ 0x3A # w # post) = Some (w # post)"
    using strip_prefix_append [of "op @ [0x3A]" "w # post"] by simp
  with assms show ?thesis
    unfolding spacing_match_at_def list_ex_iff by force
qed

lemma test_spacing_suffix: "test_spacing s \<Longrightarrow> test_spacing (pre @ s)"
  by (induction pre) auto

lemma test_spacing_here: "spacing_match_at s \<Longrightarrow> test_spacing s"
  by (cases s) (auto simp: spacing_match_at_def list_ex_iff spacing_operators_def js_def)

lemma spacing_operators_eval:
  "spacing_operators =
     [[101, 120, 116], [115, 105, 116, 101], [105, 110, 117, 114, 108],
      [105, 110, 116, 105, 116, 108, 101]]"
  by (simp add: spacing_operators_def js_def)

lemmas validate_eval =
  validatePayload_def test_cyrillic_def quoteCount_def is_cyrillic_def js_def
  spacing_match_at_def spacing_operators_eval is_whitespace_def

lemma msg_distinct:
  "msg_cyrillic \<noteq> msg_quotes" "msg_cyrillic \<noteq> msg_spacing" "msg_quotes \<noteq> msg_spacing"
  "msg_quotes \<noteq> msg_cyrillic" "msg_spacing \<noteq> msg_cyrillic" "msg_spacing \<noteq> msg_quotes"
  by (simp_all add: msg_cyrillic_def msg_quotes_def msg_spacing_def js_def)

lemma set_validatePayload:
  "set (validatePayload q) =
     (if test_cyrillic q then {msg_cyrillic} else {}) \<union>
     (if odd (quoteCount q) then {msg_quotes} else {}) \<union>
     (if test_spacing q then {msg_spacing} else {})"
  by (auto simp: validatePayload_def Let_def odd_iff_mod_2_eq_one)

lemma is_cyrillic_in_block: "is_cyrillic c \<Longrightarrow> spec_cyrillic_block c"
  by (auto simp: is_cyrillic_def spec_cyrillic_block_def)

text \<open>
  C1, as the code has it. The issues returned for a query contain the CRITICAL message on
  ASCII-only operators exactly when the query holds one of the 66 letters of the class of
  the validator: U+0410..U+044F, U+0401 or U+0451. So a query with no character of the
  Cyrillic block of Unicode never has the message.
\<close>

theorem validatePayload_cyrillic_iff:
  "(msg_cyrillic \<in> set (validatePayload q) \<longleftrightarrow> (\<exists>c \<in> set q. is_cyrillic c)) \<and>
   ((\<forall>c \<in> set q. \<not> spec_cyrillic_block c) \<longrightarrow> msg_cyrillic \<notin> set (validatePayload q))"
proof -
  have iff: "msg_cyrillic \<in> set (validatePayload q) \<longleftrightarrow> (\<exists>c \<in> set q. is_cyrillic c)"
    by (simp add: set_validatePayload msg_distinct test_cyrillic_def list_ex_iff)
  then show ?thesis
    using is_cyrillic_in_block by blast
qed

theorem validatePayload_cyrillic_iff_witness:
  "msg_cyrillic \<in> set (validatePayload ([0x441, 0x430, 0x439, 0x442] @ js '':example.ru'')) \<and>
   msg_cyrillic \<notin> set (validatePayload (js ''site:example.ru''))"
  using validatePayload_cyrillic_iff [of "[0x441, 0x430, 0x439, 0x442] @ js '':example.ru''"]
        validatePayload_cyrillic_iff [of "js ''site:example.ru''"]
  by (simp add: is_cyrillic_def spec_cyrillic_block_def js_def)

text \<open>
  The claim C1 fails under both readings of its range. A query of the one letter U+0456
  (the Ukrainian i), which is in the Cyrillic block, comes back with no issue. A query
  of the one letter U+0451 (small yo), which is outside the run U+0410..U+044F, comes
  back with the CRITICAL message.
\<close>

theorem cyrillic_range_counterexample:
  "spec_cyrillic_block 0x456 \<and> validatePayload [0x456] = [] \<and>
   \<not> spec_cyrillic_run 0x451 \<and> validatePayload [0x451] = [msg_cyrillic]"
  by (simp add: spec_cyrillic_block_def spec_cyrillic_run_def validate_eval)

text \<open>
  C8. The issues returned for a query contain the unbalanced-quotes SYNTAX ERROR exactly
  when the number of double-quote characters (U+0022) of the query is odd; with an even
  number, zero included, the issue is absent.
\<close>

theorem validatePayload_quotes_iff:
  "msg_quotes \<in> set (validatePayload q) \<longleftrightarrow> odd (length (filter (\<lambda>c. c = 0x22) q))"
  by (simp add: set_validatePayload msg_distinct quoteCount_def)

theorem validatePayload_quotes_iff_witness:
  "msg_quotes \<in> set (validatePayload (js ''intitle:'' @ [0x22] @ js ''index of'')) \<and>
   msg_quotes \<notin> set (validatePayload (js ''intitle:'' @ [0x22] @ js ''index of'' @ [0x22])) \<and>
   msg_quotes \<notin> set (validatePayload (js ''site:example.com''))"
  using validatePayload_quotes_iff [of "js ''intitle:'' @ [0x22] @ js ''index of''"]
        validatePayload_quotes_iff [of "js ''intitle:'' @ [0x22] @ js ''index of'' @ [0x22]"]
        validatePayload_quotes_iff [of "js ''site:example.com''"]
  by (simp add: js_def)

text \<open>
  C2. The warning on a space after the colon is missing for the operator \<open>filetype\<close>:
  the query \<open>filetype: pdf\<close> comes back with no issue at all.
\<close>

theorem validatePayload_filetype_space_unflagged:
  "validatePayload (js ''filetype: pdf'') = []"
  by (simp add: validate_eval)

text \<open>
  The four operators of the pattern are flagged wherever they stand, so also inside
  \<open>intext:\<close>, \<open>-site:\<close> and \<open>-inurl:\<close>; the two examples of the specification behave
  as it says.
\<close>

lemma test_spacing_intro:
  "op \<in> set spacing_operators \<Longrightarrow> is_whitespace w \<Longrightarrow>
   test_spacing (pre @ op @ 0x3A # w # post)"
  by (intro test_spacing_suffix test_spacing_here spacing_match_at_intro)

lemma spacing_flagged:
  "op \<in> set spacing_operators \<Longrightarrow> is_whitespace w \<Longrightarrow>
   msg_spacing \<in> set (validatePayload (pre @ op @ 0x3A # w # post))"
  by (simp add: set_validatePayload test_spacing_intro)

lemma validatePayload_site_space: "validatePayload (js ''site: example.com'') = [msg_spacing]"
  by (simp add: validate_eval)

lemma validatePayload_site_no_space: "validatePayload (js ''site:example.com'') = []"
  by (simp add: validate_eval)

lemma validatePayload_intext_space: "validatePayload (js ''intext: password'') = [msg_spacing]"
  by (simp add: validate_eval)

section \<open>Properties of the history ledger\<close>

lemma take_append_take: "take n (xs @ take n ys) = take n (xs @ ys)"
  by (simp add: min_def)

lemma record_all_eq: "length h \<le> 10 \<Longrightarrow> record_all es h = take 10 (rev es @ h)"
proof (induction es arbitrary: h)
  case Nil
  then show ?case by (simp add: record_all_def)
next
  case (Cons e es)
  have "record_all (e # es) h = record_all es (recordHistory e h)"
    by (simp add: record_all_def)
  also have "\<dots> = take 10 (rev es @ take 10 (e # h))"
    using Cons.IH [of "recordHistory e h"] by (simp add: recordHistory_def)
  also have "\<dots> = take 10 (rev (e # es) @ h)"
    using take_append_take [of 10 "rev es" "e # h"] by simp
  finally show ?case .
qed

section \<open>Properties of the controller\<close>

lemma trim_Nil_iff: "trim s = [] \<longleftrightarrow> (\<forall>c \<in> set s. is_whitespace c)"
proof -
  have "trim s = [] \<longleftrightarrow> (\<forall>c \<in> set (dropWhile is_whitespace s). is_whitespace c)"
    by (simp add: trim_def dropWhile_eq_Nil_conv)
  also have "\<dots> \<longleftrightarrow> dropWhile is_whitespace s = []"
    by (metis dropWhile_eq_Nil_conv dropWhile_idem)
  finally show ?thesis by (simp add: dropWhile_eq_Nil_conv)
qed

lemma sync_manual_truthy: "truthy (analysis st) \<Longrightarrow> sync_manual st = st"
  by (simp add: sync_manual_def)

lemma sync_manual_frame:
  "naturalInput (sync_manual st) = naturalInput st"
  "analysis (sync_manual st) = analysis st"
  "history (sync_manual st) = history st"
  "isLoading (sync_manual st) = isLoading st"
  "error (sync_manual st) = error st"
  "syntaxErrors (sync_manual st) = syntaxErrors st"
  "manualParams (sync_manual st) = manualParams st"
  by (simp_all add: sync_manual_def Let_def)

lemma property_Some_truthy: "property data k = Some v \<Longrightarrow> truthy data"
  by (cases data) simp_all

lemma on_parsed_string_dork:
  assumes "property data (js ''dork'') = Some (JString q)"
  shows "on_parsed e objective data st =
           Stored (st\<lparr>syntaxErrors := validatePayload q, dork := q, analysis := data,
                       history := recordHistory
                         \<lparr>timestamp = Date_now e, input = objective, response = data\<rparr>
                         (history st),
                       manualParams := empty_manual\<rparr>)"
  using assms by (cases data) (simp_all add: on_parsed_def)

lemma on_parsed_no_string_dork:
  assumes "\<forall>q. property data (js ''dork'') \<noteq> Some (JString q)"
  shows "on_parsed e objective data st = Threw (Err (TypeError_message e data))"
  using assms by (cases data) (auto simp: on_parsed_def split: option.splits json.splits)

lemma generate_complete_success:
  assumes "property data (js ''dork'') = Some (JString q)"
  shows "generate_complete e objective (Parsed data) st =
           st\<lparr>syntaxErrors := validatePayload q, dork := q, analysis := data,
               history := recordHistory
                 \<lparr>timestamp = Date_now e, input = objective, response = data\<rparr> (history st),
               manualParams := empty_manual, isLoading := False\<rparr>"
  using assms property_Some_truthy [OF assms]
  by (simp add: generate_complete_def try_block_def on_parsed_string_dork sync_manual_truthy)

lemma generate_complete_failure:
  assumes "try_block e objective resp st = Threw (Err m)"
  shows "generate_complete e objective resp st =
           st\<lparr>error := Some (uplink_error m), isLoading := False\<rparr>"
  using assms by (simp add: generate_complete_def on_catch_def)

lemma enter_pending_frame:
  "naturalInput (enter_pending st) = naturalInput st"
  "history (enter_pending st) = history st"
  "manualParams (enter_pending st) = manualParams st"
  "analysis (enter_pending st) = JNull"
  "error (enter_pending st) = None"
  "syntaxErrors (enter_pending st) = []"
  "isLoading (enter_pending st) = True"
  by (simp_all add: enter_pending_def Let_def sync_manual_frame)

lemma try_block_Stored_naturalInput:
  "try_block e objective resp st = Stored st' \<Longrightarrow> naturalInput st' = naturalInput st"
  by (auto simp: try_block_def on_parsed_def split: ai_response.splits json.splits option.splits)

lemma generate_complete_naturalInput:
  "naturalInput (generate_complete e objective resp st) = naturalInput st"
  by (cases "try_block e objective resp st")
     (simp_all add: generate_complete_def on_catch_def sync_manual_frame
        try_block_Stored_naturalInput split: thrown.splits)

lemma try_block_Stored_history:
  "try_block e objective resp st = Stored st' \<Longrightarrow> length (history st') \<le> 10"
  by (auto simp: try_block_def on_parsed_def recordHistory_def
           split: ai_response.splits json.splits option.splits)

lemma generate_complete_history_bound:
  "length (history st) \<le> 10 \<Longrightarrow>
   length (history (generate_complete e objective resp st)) \<le> 10"
  by (cases "try_block e objective resp st")
     (simp_all add: generate_complete_def on_catch_def sync_manual_frame
        try_block_Stored_history split: thrown.splits)

lemma generateWithAI_history_bound:
  "length (history st) \<le> 10 \<Longrightarrow>
   length (history (fst (generateWithAI e resp ov st))) \<le> 10"
  by (simp add: generateWithAI_def Let_def generate_complete_history_bound enter_pending_frame)

lemma example_objective_not_blank: "trim example_objective \<noteq> []"
  by (simp add: trim_Nil_iff example_objective_def js_def is_whitespace_def)

lemma example_env_key: "API_KEY example_env \<noteq> []"
  by (simp add: example_env_def js_def)

lemma example_response_dork:
  "property (example_response r) (js ''dork'') = Some (JString (js ''site:.edu filetype:env''))"
  by (simp add: example_response_def)

lemma example_response_refined:
  "property (example_response r) (js ''refinedObjective'') = Some (JString r)"
  by (simp add: example_response_def js_def)

lemma validatePayload_example: "validatePayload (js ''site:.edu filetype:env'') = []"
  by (simp add: validate_eval)

lemma example_response_not_null: "example_response r \<noteq> JNull"
  by (simp add: example_response_def)

lemma example_session_eq:
  "example_session r =
     initial_session
      \<lparr>naturalInput := example_objective,
       dork := js ''site:.edu filetype:env'',
       analysis := example_response r,
       history := [\<lparr>timestamp = Date_now example_env, input = example_objective,
                    response = example_response r\<rparr>]\<rparr>"
  by (simp add: example_session_def generateWithAI_def Let_def inputToUse_def
        example_objective_not_blank example_env_key
        generate_complete_success [OF example_response_dork] enter_pending_def
        initial_session_def recordHistory_def validatePayload_example)

text \<open>
  C4. Recording puts the new entry in front and keeps the nine entries that followed,
  in their order. After any sequence of records on a ledger of at most 10 entries the
  ledger is the newest-first list of what was recorded, followed by the old entries,
  cut to 10; so it never holds more than 10, and after 11 records it holds the last 10
  of them, newest first. The controller changes the ledger by this operation only, so a
  generation cycle keeps the bound.
\<close>

theorem history_ledger_bounded_newest_first:
  assumes "length h \<le> 10"
  shows "recordHistory e h = e # take 9 h \<and>
         length (record_all es h) \<le> 10 \<and>
         record_all es h = take 10 (rev es @ h) \<and>
         (length es = 11 \<longrightarrow> record_all es h = rev (drop 1 es)) \<and>
         length (history (fst (generateWithAI env resp ov (st\<lparr>history := h\<rparr>)))) \<le> 10"
proof -
  have 1: "recordHistory e h = e # take 9 h"
    by (simp add: recordHistory_def take_Cons')
  have 2: "record_all es h = take 10 (rev es @ h)"
    using assms by (rule record_all_eq)
  have 3: "length es = 11 \<longrightarrow> record_all es h = rev (drop 1 es)"
  proof
    assume l: "length es = 11"
    have "take 10 (rev es) = rev (drop 1 es)"
      using l by (simp add: take_rev)
    with l show "record_all es h = rev (drop 1 es)"
      by (simp add: 2)
  qed
  have 4: "length (history (fst (generateWithAI env resp ov (st\<lparr>history := h\<rparr>)))) \<le> 10"
    using assms by (intro generateWithAI_history_bound) simp
  from 1 2 3 4 show ?thesis by simp
qed

theorem history_ledger_bounded_newest_first_witness:
  "length ([] :: HistoryItem list) \<le> 10 \<and>
   record_all (map example_item [1, 2, 3, 4, 5, 6, 7, 8, 9, 10, 11]) [] =
     map example_item [11, 10, 9, 8, 7, 6, 5, 4, 3, 2]"
  using history_ledger_bounded_newest_first
          [of "[]" undefined "map example_item [1, 2, 3, 4, 5, 6, 7, 8, 9, 10, 11]"]
  by simp

text \<open>
  C6. When the objective that generation would use is empty or holds whitespace only,
  \<open>generateWithAI\<close> makes no call of the AI boundary and returns the session state as
  it was. The first part is the case of the button and the key binding, which pass no
  argument, so that the objective is the one of the session.
\<close>

theorem blank_objective_noop:
  "((\<forall>c \<in> set (naturalInput st). is_whitespace c) \<longrightarrow>
      generateWithAI e resp None st = (st, [])) \<and>
   ((\<forall>c \<in> set (inputToUse ov st). is_whitespace c) \<longrightarrow>
      generateWithAI e resp ov st = (st, []))"
  by (simp add: generateWithAI_def Let_def trim_Nil_iff inputToUse_def)

theorem blank_objective_noop_witness:
  "generateWithAI example_env (Parsed (example_response [])) None
     (initial_session\<lparr>naturalInput := [0x20, 0x09, 0x0A]\<rparr>) =
   (initial_session\<lparr>naturalInput := [0x20, 0x09, 0x0A]\<rparr>, []) \<and>
   generateWithAI example_env (Parsed (example_response [])) (Some [0x20])
     (initial_session\<lparr>naturalInput := example_objective\<rparr>) =
   (initial_session\<lparr>naturalInput := example_objective\<rparr>, [])"
  using blank_objective_noop [of "initial_session\<lparr>naturalInput := [0x20, 0x09, 0x0A]\<rparr>"
          example_env "Parsed (example_response [])"]
        blank_objective_noop [of "initial_session\<lparr>naturalInput := example_objective\<rparr>"
          example_env "Parsed (example_response [])" "Some [0x20]"]
  by (simp add: is_whitespace_def inputToUse_def)

lemma uplink_error_prefix:
  "\<exists>suffix. uplink_error m = js ''UPLINK ERROR: Unable to generate strategy.'' @ suffix"
  by (simp add: uplink_error_def Let_def)

text \<open>
  C3, as the code has it. When the response text is not empty and is not parseable JSON,
  or when the parsed value has no \<open>dork\<close> property that is a string, the completion of
  the cycle sets the UPLINK ERROR message, clears the busy flag and changes nothing
  else: no result is stored and the ledger is as before. For a whole cycle this leaves
  the error message set, no result, and the ledger of before the cycle.
\<close>

theorem unparseable_or_dorkless_response_fails:
  assumes "resp = Malformed m \<or>
           (resp = Parsed data \<and> (\<forall>q. property data (js ''dork'') \<noteq> Some (JString q)))"
  shows "\<exists>msg.
           generate_complete e objective resp st =
             st\<lparr>error := Some (uplink_error msg), isLoading := False\<rparr> \<and>
           (trim (inputToUse ov st) \<noteq> [] \<and> API_KEY e \<noteq> [] \<longrightarrow>
              (let (st', calls) = generateWithAI e resp ov st
               in error st' = Some (uplink_error msg) \<and> analysis st' = JNull \<and>
                  history st' = history st \<and> \<not> isLoading st'))"
proof -
  define msg where "msg = (if resp = Malformed m then m else TypeError_message e data)"
  have threw: "try_block e objective' resp st' = Threw (Err msg)" for objective' st'
    using assms by (auto simp: try_block_def msg_def on_parsed_no_string_dork)
  have "generate_complete e objective resp st =
          st\<lparr>error := Some (uplink_error msg), isLoading := False\<rparr>"
    by (rule generate_complete_failure [OF threw])
  moreover have "trim (inputToUse ov st) \<noteq> [] \<and> API_KEY e \<noteq> [] \<longrightarrow>
              (let (st', calls) = generateWithAI e resp ov st
               in error st' = Some (uplink_error msg) \<and> analysis st' = JNull \<and>
                  history st' = history st \<and> \<not> isLoading st')"
    by (simp add: generateWithAI_def Let_def generate_complete_failure [OF threw]
          enter_pending_frame)
  ultimately show ?thesis by blast
qed

theorem unparseable_or_dorkless_response_fails_witness:
  "(\<exists>msg.
      (let (st', calls) =
             generateWithAI example_env (Malformed (js ''Unexpected end of JSON input'')) None
               (initial_session\<lparr>naturalInput := example_objective\<rparr>)
       in error st' = Some (uplink_error msg) \<and> analysis st' = JNull \<and> history st' = [] \<and>
          \<not> isLoading st')) \<and>
   (\<exists>msg.
      (let (st', calls) =
             generateWithAI example_env
               (Parsed (JObject [(js ''explanation'', JString (js ''no query''))])) None
               (initial_session\<lparr>naturalInput := example_objective\<rparr>)
       in error st' = Some (uplink_error msg) \<and> analysis st' = JNull \<and> history st' = [] \<and>
          \<not> isLoading st'))"
proof -
  let ?st = "initial_session\<lparr>naturalInput := example_objective\<rparr>"
  let ?data = "JObject [(js ''explanation'', JString (js ''no query''))]"
  have nb: "trim (inputToUse None ?st) \<noteq> []"
    by (simp add: inputToUse_def example_objective_not_blank)
  have h: "history ?st = []"
    by (simp add: initial_session_def)
  have nd: "\<forall>q. property ?data (js ''dork'') \<noteq> Some (JString q)"
    by (simp add: js_def)
  from unparseable_or_dorkless_response_fails
         [where resp = "Malformed (js ''Unexpected end of JSON input'')"
            and m = "js ''Unexpected end of JSON input''" and e = example_env
            and ov = None and st = ?st and objective = example_objective]
    nb example_env_key h
  have 1: "\<exists>msg.
      (let (st', calls) =
             generateWithAI example_env (Malformed (js ''Unexpected end of JSON input'')) None ?st
       in error st' = Some (uplink_error msg) \<and> analysis st' = JNull \<and> history st' = [] \<and>
          \<not> isLoading st')"
    by auto
  from unparseable_or_dorkless_response_fails
         [where resp = "Parsed ?data" and data = ?data and e = example_env
            and ov = None and st = ?st and objective = example_objective]
    nb example_env_key h nd
  have 2: "\<exists>msg.
      (let (st', calls) = generateWithAI example_env (Parsed ?data) None ?st
       in error st' = Some (uplink_error msg) \<and> analysis st' = JNull \<and> history st' = [] \<and>
          \<not> isLoading st')"
    by auto
  from 1 2 show ?thesis by blast
qed

text \<open>
  The claim C3 fails on a parsed object that has a string \<open>dork\<close> and omits the six
  other required fields: the cycle ends with no error, the object stored as the result
  and one entry in the ledger. It also fails on a response without text, which sets no
  error.
\<close>

theorem schema_violation_accepted_counterexample:
  "omits_required (JObject [(js ''dork'', JString (js ''site:example.com''))]) \<and>
   generateWithAI example_env
       (Parsed (JObject [(js ''dork'', JString (js ''site:example.com''))])) None
       (initial_session\<lparr>naturalInput := example_objective\<rparr>) =
     (initial_session
        \<lparr>naturalInput := example_objective,
         dork := js ''site:example.com'',
         analysis := JObject [(js ''dork'', JString (js ''site:example.com''))],
         history := [\<lparr>timestamp = Date_now example_env, input = example_objective,
                      response = JObject [(js ''dork'', JString (js ''site:example.com''))]\<rparr>]\<rparr>,
      [example_objective]) \<and>
   error initial_session = None \<and>
   generateWithAI example_env NoText None
       (initial_session\<lparr>naturalInput := example_objective\<rparr>) =
     (initial_session\<lparr>naturalInput := example_objective\<rparr>, [example_objective])"
proof -
  let ?data = "JObject [(js ''dork'', JString (js ''site:example.com''))]"
  have 1: "omits_required ?data"
    by (simp add: omits_required_def required_fields_def js_def)
  have d: "property ?data (js ''dork'') = Some (JString (js ''site:example.com''))"
    by simp
  have 2: "generateWithAI example_env (Parsed ?data) None
       (initial_session\<lparr>naturalInput := example_objective\<rparr>) =
     (initial_session
        \<lparr>naturalInput := example_objective,
         dork := js ''site:example.com'',
         analysis := ?data,
         history := [\<lparr>timestamp = Date_now example_env, input = example_objective,
                      response = ?data\<rparr>]\<rparr>,
      [example_objective])"
    by (simp add: generateWithAI_def Let_def inputToUse_def example_objective_not_blank
          example_env_key generate_complete_success [OF d] enter_pending_def
          initial_session_def recordHistory_def validatePayload_site_no_space)
  have 3: "generateWithAI example_env NoText None
       (initial_session\<lparr>naturalInput := example_objective\<rparr>) =
     (initial_session\<lparr>naturalInput := example_objective\<rparr>, [example_objective])"
    by (simp add: generateWithAI_def Let_def inputToUse_def example_objective_not_blank
          example_env_key generate_complete_def try_block_def enter_pending_def
          initial_session_def)
  from 1 2 3 show ?thesis by (simp add: initial_session_def)
qed

text \<open>
  C5. When the parsed value has a \<open>dork\<close> property that is a string \<open>q\<close>, as every
  value of the shape \<open>DorkResponse\<close> has, the completion of the cycle stores the issues
  of \<open>validatePayload q\<close>, stores \<open>q\<close> as the query and the parsed value as the result,
  puts one entry with the objective and the parsed value in front of the ledger (cut to
  10), empties all five manual fields and clears the busy flag; nothing else changes. A
  whole cycle on a state \<open>st\<close> differs from that only by the error message cleared on
  entry, and makes one call of the AI boundary.
\<close>

theorem generation_success_effects:
  assumes "property data (js ''dork'') = Some (JString q)"
  shows "generate_complete e objective (Parsed data) st =
           st\<lparr>syntaxErrors := validatePayload q, dork := q, analysis := data,
               history := take 10 (\<lparr>timestamp = Date_now e, input = objective, response = data\<rparr>
                                   # history st),
               manualParams := \<lparr>site = [], inurl = [], intitle = [], filetype = [],
                                textquery = []\<rparr>,
               isLoading := False\<rparr> \<and>
         (trim (inputToUse ov st) \<noteq> [] \<and> API_KEY e \<noteq> [] \<longrightarrow>
          generateWithAI e (Parsed data) ov st =
            (st\<lparr>error := None, syntaxErrors := validatePayload q, dork := q, analysis := data,
                history := take 10 (\<lparr>timestamp = Date_now e, input = inputToUse ov st,
                                      response = data\<rparr> # history st),
                manualParams := \<lparr>site = [], inurl = [], intitle = [], filetype = [],
                                 textquery = []\<rparr>,
                isLoading := False\<rparr>, [inputToUse ov st]))"
  by (simp add: generate_complete_success [OF assms] recordHistory_def empty_manual_def
        generateWithAI_def Let_def enter_pending_def sync_manual_def)

theorem generation_success_effects_witness:
  "generateWithAI example_env (Parsed (example_response (js ''x''))) None
     (initial_session\<lparr>naturalInput := example_objective\<rparr>) =
   (initial_session
      \<lparr>naturalInput := example_objective,
       dork := js ''site:.edu filetype:env'',
       analysis := example_response (js ''x''),
       history := [\<lparr>timestamp = Date_now example_env, input = example_objective,
                    response = example_response (js ''x'')\<rparr>]\<rparr>,
    [example_objective])"
  using generation_success_effects
          [where data = "example_response (js ''x'')" and e = example_env and ov = None
             and st = "initial_session\<lparr>naturalInput := example_objective\<rparr>",
           OF example_response_dork]
  by (simp add: inputToUse_def example_objective_not_blank example_env_key
        validatePayload_example initial_session_def empty_manual_def)

text \<open>
  C7, as the code has it. When the objective that generation would use holds a character
  that is not whitespace and no credential is configured, \<open>generateWithAI\<close> makes no
  call of the AI boundary and changes the session in one place only: the error message
  becomes the ABORTED text. Manual mode goes on as it would have: a change of a manual
  field composes the same state, the error message apart.
\<close>

theorem missing_credential_aborts:
  assumes "\<exists>c \<in> set (inputToUse ov st). \<not> is_whitespace c" and "API_KEY e = []"
  shows "generateWithAI e resp ov st = (st\<lparr>error := Some msg_aborted\<rparr>, []) \<and>
         handleManualChange name v (st\<lparr>error := Some msg_aborted\<rparr>) =
           (handleManualChange name v st)\<lparr>error := Some msg_aborted\<rparr>"
  using assms
  by (auto simp: generateWithAI_def Let_def trim_Nil_iff handleManualChange_def
        sync_manual_def)

theorem missing_credential_aborts_witness:
  "generateWithAI example_env_no_key (Parsed (example_response [])) None
     ((mount example_env_no_key)\<lparr>naturalInput := example_objective\<rparr>) =
   (initial_session\<lparr>naturalInput := example_objective, error := Some msg_aborted\<rparr>, []) \<and>
   dork (handleManualChange Site (js ''example.com'')
          (initial_session\<lparr>naturalInput := example_objective, error := Some msg_aborted\<rparr>)) =
     js ''site:example.com''"
proof -
  let ?st = "(mount example_env_no_key)\<lparr>naturalInput := example_objective\<rparr>"
  have nb: "\<exists>c \<in> set (inputToUse None ?st). \<not> is_whitespace c"
    using example_objective_not_blank by (simp add: trim_Nil_iff inputToUse_def)
  have nk: "API_KEY example_env_no_key = []"
    by (simp add: example_env_no_key_def)
  have st: "?st\<lparr>error := Some msg_aborted\<rparr> =
            initial_session\<lparr>naturalInput := example_objective, error := Some msg_aborted\<rparr>"
    by (simp add: mount_def nk)
  have m: "dork (handleManualChange Site (js ''example.com'') ?st) = js ''site:example.com''"
    by (simp add: handleManualChange_def sync_manual_def manual_parts_def initial_session_def
          empty_manual_def js_def mount_def nk)
  from missing_credential_aborts
         [OF nb nk, of "Parsed (example_response [])" Site "js ''example.com''"] m
  show ?thesis by (simp add: st)
qed

text \<open>
  The claim C7 fails on an objective that is not empty and holds whitespace only. With
  no credential, generation on the objective of one space returns the session as it
  was: from the mounted session the message stays the alert of the mount, the ABORTED
  message is not set; from a session without an error message none appears.
\<close>

theorem blank_objective_no_credential_counterexample:
  "js '' '' \<noteq> [] \<and>
   API_KEY example_env_no_key = [] \<and>
   generateWithAI example_env_no_key NoText None
       ((mount example_env_no_key)\<lparr>naturalInput := js '' ''\<rparr>) =
     (initial_session\<lparr>naturalInput := js '' '', error := Some msg_system_alert\<rparr>, []) \<and>
   msg_system_alert \<noteq> msg_aborted \<and>
   generateWithAI example_env_no_key NoText None (initial_session\<lparr>naturalInput := js '' ''\<rparr>) =
     (initial_session\<lparr>naturalInput := js '' ''\<rparr>, []) \<and>
   error (initial_session\<lparr>naturalInput := js '' ''\<rparr>) = None"
proof -
  have nk: "API_KEY example_env_no_key = []"
    by (simp add: example_env_no_key_def)
  have t: "trim (js '' '') = []"
    by (simp add: trim_def js_def is_whitespace_def)
  have n: "js '' '' \<noteq> []"
    by (simp add: js_def)
  have d: "msg_system_alert \<noteq> msg_aborted"
    by (simp add: msg_system_alert_def msg_aborted_def js_def)
  from nk t n d show ?thesis
    by (simp add: generateWithAI_def Let_def inputToUse_def mount_def initial_session_def)
qed

text \<open>
  C9, as the code has it. When the result of the session has a \<open>refinedObjective\<close> that
  is a string \<open>x\<close> with a character that is not whitespace, \<open>handleApplyImprovement\<close>
  stores \<open>x\<close> as the objective and invokes \<open>generateWithAI\<close> once, with \<open>x\<close>. With a
  credential this is one generation cycle with exactly one call of the AI boundary, on
  \<open>x\<close>; without one it sets the ABORTED message and makes no call. In both cases the
  objective of the session is \<open>x\<close> afterwards.
\<close>

theorem apply_improvement_regenerates:
  assumes "property (analysis st) (js ''refinedObjective'') = Some (JString x)"
      and "\<exists>c \<in> set x. \<not> is_whitespace c"
  shows "handleApplyImprovement e resp st =
           Some (generateWithAI e resp (Some x) (st\<lparr>naturalInput := x\<rparr>)) \<and>
         generateWithAI e resp (Some x) (st\<lparr>naturalInput := x\<rparr>) =
           (if API_KEY e = [] then (st\<lparr>naturalInput := x, error := Some msg_aborted\<rparr>, [])
            else (generate_complete e x resp (enter_pending (st\<lparr>naturalInput := x\<rparr>)), [x])) \<and>
         naturalInput (fst (generateWithAI e resp (Some x) (st\<lparr>naturalInput := x\<rparr>))) = x"
proof -
  from assms(2) have x: "x \<noteq> []" "trim x \<noteq> []"
    by (auto simp: trim_Nil_iff)
  have "truthy (analysis st)"
    using assms(1) by (rule property_Some_truthy)
  with assms(1) x have 1: "handleApplyImprovement e resp st =
           Some (generateWithAI e resp (Some x) (st\<lparr>naturalInput := x\<rparr>))"
    by (simp add: handleApplyImprovement_def)
  have 2: "generateWithAI e resp (Some x) (st\<lparr>naturalInput := x\<rparr>) =
           (if API_KEY e = [] then (st\<lparr>naturalInput := x, error := Some msg_aborted\<rparr>, [])
            else (generate_complete e x resp (enter_pending (st\<lparr>naturalInput := x\<rparr>)), [x]))"
    using x by (simp add: generateWithAI_def inputToUse_def)
  have 3: "naturalInput (fst (generateWithAI e resp (Some x) (st\<lparr>naturalInput := x\<rparr>))) = x"
    by (simp add: 2 generate_complete_naturalInput enter_pending_frame)
  from 1 2 3 show ?thesis by blast
qed

theorem apply_improvement_regenerates_witness:
  "handleApplyImprovement example_env (Parsed (example_response (js ''y'')))
     (example_session (js ''find .env files under /config on edu domains'')) =
   Some ((example_session (js ''y''))
           \<lparr>naturalInput := js ''find .env files under /config on edu domains'',
            history := [\<lparr>timestamp = Date_now example_env,
                         input = js ''find .env files under /config on edu domains'',
                         response = example_response (js ''y'')\<rparr>,
                        \<lparr>timestamp = Date_now example_env, input = example_objective,
                         response = example_response
                           (js ''find .env files under /config on edu domains'')\<rparr>]\<rparr>,
         [js ''find .env files under /config on edu domains''])"
proof -
  let ?x = "js ''find .env files under /config on edu domains''"
  have p: "property (analysis (example_session ?x)) (js ''refinedObjective'') = Some (JString ?x)"
    by (simp add: example_session_eq example_response_refined)
  have nb: "\<exists>c \<in> set ?x. \<not> is_whitespace c"
    by (simp add: js_def is_whitespace_def)
  have g: "generate_complete example_env ?x (Parsed (example_response (js ''y'')))
             (enter_pending ((example_session ?x)\<lparr>naturalInput := ?x\<rparr>)) =
           (example_session (js ''y''))
           \<lparr>naturalInput := ?x,
            history := [\<lparr>timestamp = Date_now example_env, input = ?x,
                         response = example_response (js ''y'')\<rparr>,
                        \<lparr>timestamp = Date_now example_env, input = example_objective,
                         response = example_response ?x\<rparr>]\<rparr>"
    by (simp add: generate_complete_success [OF example_response_dork]
          enter_pending_def example_session_eq initial_session_def recordHistory_def
          validatePayload_example sync_manual_def manual_parts_def empty_manual_def
          Let_def example_response_not_null)
  from apply_improvement_regenerates
         [OF p nb, of example_env "Parsed (example_response (js ''y''))"]
    example_env_key g
  show ?thesis by simp
qed

text \<open>
  The claim C9 fails on a \<open>refinedObjective\<close> that is not empty and holds whitespace
  only: after a successful cycle whose result proposes the objective of one space, and
  with a credential, \<open>handleApplyImprovement\<close> stores that objective and starts no
  generation cycle.
\<close>

theorem blank_refined_objective_counterexample:
  "property (analysis (example_session (js '' ''))) (js ''refinedObjective'') =
     Some (JString (js '' '')) \<and>
   js '' '' \<noteq> [] \<and>
   API_KEY example_env \<noteq> [] \<and>
   handleApplyImprovement example_env (Parsed (example_response [])) (example_session (js '' '')) =
     Some ((example_session (js '' ''))\<lparr>naturalInput := js '' ''\<rparr>, [])"
proof -
  have a: "analysis (example_session (js '' '')) = example_response (js '' '')"
    by (simp add: example_session_eq)
  have t: "trim (js '' '') = []"
    by (simp add: trim_def js_def is_whitespace_def)
  have n: "js '' '' \<noteq> []"
    by (simp add: js_def)
  have "handleApplyImprovement example_env (Parsed (example_response []))
          (example_session (js '' '')) =
        Some ((example_session (js '' ''))\<lparr>naturalInput := js '' ''\<rparr>, [])"
    using n t property_Some_truthy [OF example_response_refined [of "js '' ''"]]
    by (simp add: handleApplyImprovement_def a example_response_refined generateWithAI_def
          inputToUse_def Let_def)
  with n show ?thesis
    by (simp add: a example_response_refined example_env_key)
qed

section \<open>Properties of manual mode\<close>

text \<open>
  C10. In manual mode (no result) with every manual field empty, the effect that
  composes the query returns the state as it is, so the query keeps its value. In
  particular, when a change of a manual field leaves all five fields empty, the query
  after \<open>handleManualChange\<close> is the query of before.
\<close>

theorem manual_compose_all_empty_keeps_query:
  "(analysis st = JNull \<and> manualParams st = empty_manual \<longrightarrow> sync_manual st = st) \<and>
   (set_field name v (manualParams st) = empty_manual \<longrightarrow>
      dork (handleManualChange name v st) = dork st)"
  by (simp add: sync_manual_def handleManualChange_def manual_parts_def empty_manual_def Let_def)

theorem manual_compose_all_empty_keeps_query_witness:
  "dork (handleManualChange Site (js ''example.com'') initial_session) =
     js ''site:example.com'' \<and>
   manualParams (handleManualChange Site []
     (handleManualChange Site (js ''example.com'') initial_session)) = empty_manual \<and>
   dork (handleManualChange Site []
     (handleManualChange Site (js ''example.com'') initial_session)) = js ''site:example.com''"
proof -
  let ?st = "handleManualChange Site (js ''example.com'') initial_session"
  have d: "dork ?st = js ''site:example.com''"
    by (simp add: handleManualChange_def sync_manual_def manual_parts_def initial_session_def
          empty_manual_def js_def)
  have m: "manualParams ?st = empty_manual\<lparr>site := js ''example.com''\<rparr>"
    by (simp add: handleManualChange_def sync_manual_frame initial_session_def)
  have e: "set_field Site [] (manualParams ?st) = empty_manual"
    by (simp add: m empty_manual_def)
  have m': "manualParams (handleManualChange Site [] ?st) = empty_manual"
    using e by (simp add: handleManualChange_def sync_manual_frame)
  from manual_compose_all_empty_keeps_query [of ?st Site "[]"] e d m'
  show ?thesis by simp
qed

end
